theory Spec2Isabelle
  imports
    Complex_Main
    "HOL-Library.Char_ord"
    "HOL-Library.List_Lexorder"
begin

section \<open>The training playground of HomeScreen.tsx\<close>

text \<open>
  The component \<^verbatim>\<open>HomeScreen\<close> keeps its whole pipeline in React state: the imported
  training files, the per-label counts, the previews, the head model, the test image and
  the last prediction. Each handler (\<^verbatim>\<open>onAddFolder\<close>, \<^verbatim>\<open>onTrainHead\<close>,
  \<^verbatim>\<open>onSelectTest\<close>, \<^verbatim>\<open>onPredictBtn\<close>, \<^verbatim>\<open>onClearAll\<close>) is modelled as a function
  from the state before the handler to the state after it. The handlers are taken as
  atomic; what happens when the user triggers another handler while one is suspended at an
  \<^verbatim>\<open>await\<close> is outside this model, and so are the release of tensors
  (\<^verbatim>\<open>dispose\<close>), the wall-clock prefix \<^verbatim>\<open>[hh:mm:ss]\<close> of a log line and the yield
  \<^verbatim>\<open>tf.nextFrame()\<close>. Numbers that JavaScript holds as floating point are reals
  (probabilities, features) or naturals (counts, indices). A string is a list of
  characters, ordered lexicographically by character code as the default
  \<^verbatim>\<open>Array.prototype.sort\<close> orders strings by code unit.

  TensorFlow.js, MobileNet and the browser are not part of the repository. Every call
  into them is a field of the record \<open>env\<close>; a call that can throw returns the message
  of the thrown error on the left.
\<close>

subsection \<open>JavaScript values used by the handlers\<close>

text \<open>
  \<^verbatim>\<open>Record<string, number>\<close> is an ordinary object created by \<^verbatim>\<open>{}\<close> or by a spread.
  Reading \<^verbatim>\<open>o[k]\<close> finds an own property first and then walks to \<^verbatim>\<open>Object.prototype\<close>;
  writing \<^verbatim>\<open>o[k] = v\<close> creates an own property, except for the key \<^verbatim>\<open>__proto__\<close>,
  whose inherited setter ignores a value that is neither an object nor null.
  The own properties are a map; \<open>objectPrototypeKeys\<close> lists the names that
  \<^verbatim>\<open>Object.prototype\<close> defines.
\<close>

definition objectPrototypeKeys :: "string list" where
  "objectPrototypeKeys =
     [''constructor'', ''__proto__'', ''hasOwnProperty'', ''isPrototypeOf'',
      ''propertyIsEnumerable'', ''toLocaleString'', ''toString'', ''valueOf'',
      ''__defineGetter__'', ''__defineSetter__'', ''__lookupGetter__'',
      ''__lookupSetter__'']"

datatype 'v lookup = Own 'v | Inherited | Undefined

definition js_get :: "(string \<rightharpoonup> 'v) \<Rightarrow> string \<Rightarrow> 'v lookup" where
  "js_get obj k =
     (case obj k of
        Some v \<Rightarrow> Own v
      | None \<Rightarrow> if k \<in> set objectPrototypeKeys then Inherited else Undefined)"

definition js_put :: "(string \<rightharpoonup> 'v) \<Rightarrow> string \<Rightarrow> 'v \<Rightarrow> (string \<rightharpoonup> 'v)" where
  "js_put obj k v = (if k = ''__proto__'' then obj else obj(k \<mapsto> v))"

text \<open>
  A value stored in \<^verbatim>\<open>labelCounts\<close>: a number, or the string that \<^verbatim>\<open>+\<close> builds when its
  left operand is not a number (the text of that string is not needed).
\<close>

datatype jsval = Number nat | NotANumber

text \<open>\<^verbatim>\<open>(counts[label] ?? 0) + 1\<close>\<close>

definition plus_one :: "jsval lookup \<Rightarrow> jsval" where
  "plus_one p =
     (case p of
        Undefined \<Rightarrow> Number 1
      | Own (Number n) \<Rightarrow> Number (n + 1)
      | Own NotANumber \<Rightarrow> NotANumber
      | Inherited \<Rightarrow> NotANumber)"

text \<open>\<^verbatim>\<open>new Set(xs)\<close>: the elements in order of first insertion.\<close>

fun Set_add_all :: "'a list \<Rightarrow> 'a list \<Rightarrow> 'a list" where
  "Set_add_all s [] = s"
| "Set_add_all s (x # xs) = Set_add_all (if x \<in> set s then s else s @ [x]) xs"

definition js_Set :: "'a list \<Rightarrow> 'a list" where
  "js_Set xs = Set_add_all [] xs"

text \<open>\<^verbatim>\<open>s.split(c)\<close> for a one-character separator.\<close>

fun split_on :: "char \<Rightarrow> string \<Rightarrow> string list" where
  "split_on c [] = [[]]"
| "split_on c (x # xs) =
     (if x = c then [] # split_on c xs
      else (case split_on c xs of
              [] \<Rightarrow> [[x]]
            | p # ps \<Rightarrow> (x # p) # ps))"

text \<open>\<^verbatim>\<open>s.startsWith(p)\<close>\<close>

definition startsWith :: "string \<Rightarrow> string \<Rightarrow> bool" where
  "startsWith s p = (take (length p) s = p)"

text \<open>Decimal rendering of a number inside a template string.\<close>

function show_nat :: "nat \<Rightarrow> string" where
  "show_nat n =
     (if n < 10 then [char_of (48 + n)]
      else show_nat (n div 10) @ [char_of (48 + n mod 10)])"
  by pat_completeness auto
termination
  by (relation "measure id") auto

subsection \<open>Data\<close>

text \<open>
  A \<^verbatim>\<open>File\<close>: its MIME type, its path below the picked folder, its name, and a number
  that stands for its bytes.
\<close>

record jsfile =
  ftype :: string
  webkitRelativePath :: string
  fname :: string
  blob :: nat

record trainFile =
  tfile :: jsfile
  label :: string
  uri :: string

datatype image = Image nat

datatype mobilenet = MobileNet nat

text \<open>
  The sequential model built by \<^verbatim>\<open>onTrainHead\<close>: input dimension, number of output
  units and the parameters that \<^verbatim>\<open>model.fit\<close> leaves in it.
\<close>

datatype layersModel = LayersModel nat nat "real list"

text \<open>The model together with the two properties attached to it after fitting.\<close>

record head =
  model :: layersModel
  label2idx :: "string \<rightharpoonup> nat"
  idx2label :: "string list"

record prediction =
  top :: string
  confidences :: "string \<rightharpoonup> real"

datatype error =
    ImageLoadFailed
  | NoFeatureDim
  | LabelMappingInconsistent
  | TfError string

fun message :: "error \<Rightarrow> string" where
  "message ImageLoadFailed = ''[object Event]''"
| "message NoFeatureDim = ''Could not infer feature dimension.''"
| "message LabelMappingInconsistent = ''Label mapping is inconsistent with predictions.''"
| "message (TfError m) = m"

record env =
  isWeb :: bool
  createObjectURL :: "jsfile \<Rightarrow> string"
  decode :: "jsfile \<Rightarrow> image option"
  prepareBackend :: "string + string"
  loadMobileNet :: "string + mobilenet"
  infer :: "mobilenet \<Rightarrow> image \<Rightarrow> string + real list"
  oneHot :: "nat lookup \<Rightarrow> nat \<Rightarrow> string + real list"
  stack :: "real list list \<Rightarrow> string + real list list"
  fit :: "nat \<Rightarrow> nat \<Rightarrow> real list list \<Rightarrow> real list list \<Rightarrow> nat
            \<Rightarrow> string list \<times> (string + real list)"
  forward :: "layersModel \<Rightarrow> real list \<Rightarrow> string + real list"

record state =
  ready :: bool
  loading :: "string option"
  messages :: "string list"
  net :: "mobilenet option"
  trainFiles :: "trainFile list"
  labelCounts :: "string \<rightharpoonup> jsval"
  headModel :: "head option"
  trainPreviews :: "(string \<times> string) list"
  testPreview :: "string option"
  testFile :: "jsfile option"
  pred :: "prediction option"

definition initial :: state where
  "initial =
     \<lparr>ready = False, loading = None, messages = [], net = None, trainFiles = [],
      labelCounts = Map.empty, headModel = None, trainPreviews = [],
      testPreview = None, testFile = None, pred = None\<rparr>"

definition pushMsg :: "string \<Rightarrow> state \<Rightarrow> state" where
  "pushMsg s st = st\<lparr>messages := take 200 (s # messages st)\<rparr>"

subsection \<open>Mounting: the backend and the base model\<close>

definition onMount :: "env \<Rightarrow> state \<Rightarrow> state" where
  "onMount e st =
     (case prepareBackend e of
        Inl m \<Rightarrow> pushMsg (''[ERROR] '' @ m) (st\<lparr>loading := None\<rparr>)
      | Inr backend \<Rightarrow>
          let st1 = pushMsg (''TFJS backend: '' @ backend) st
          in (case loadMobileNet e of
                Inl m \<Rightarrow> pushMsg (''[ERROR] '' @ m) (st1\<lparr>loading := None\<rparr>)
              | Inr mdl \<Rightarrow>
                  pushMsg
                    ''Ready. Import a folder as /<label>/<image>. Then train the head model and run predictions.''
                    (st1\<lparr>net := Some mdl, ready := True, loading := None\<rparr>)))"

subsection \<open>Folder import\<close>

text \<open>\<^verbatim>\<open>f.type && f.type.startsWith("image/")\<close>\<close>

definition isImage :: "jsfile \<Rightarrow> bool" where
  "isImage f = (ftype f \<noteq> [] \<and> startsWith (ftype f) ''image/'')"

text \<open>
  Lines 163 to 166: the relative path (or the file name when it is empty), its
  non-empty segments, and the second segment from the end or \<^verbatim>\<open>"root"\<close>.
\<close>

definition relPath :: "jsfile \<Rightarrow> string" where
  "relPath f = (if webkitRelativePath f \<noteq> [] then webkitRelativePath f else fname f)"

definition labelOf :: "jsfile \<Rightarrow> string" where
  "labelOf f =
     (let parts = filter (\<lambda>s. s \<noteq> []) (split_on CHR ''/'' (relPath f))
      in if length parts \<ge> 2 then parts ! (length parts - 2) else ''root'')"

text \<open>
  The loop of lines 159 to 173 over the picked files, on the four local variables
  \<^verbatim>\<open>newTrain\<close>, \<^verbatim>\<open>previews\<close>, \<^verbatim>\<open>counts\<close> and \<^verbatim>\<open>added\<close>.
\<close>

fun scan ::
  "env \<Rightarrow> jsfile list
     \<Rightarrow> trainFile list \<times> (string \<times> string) list \<times> (string \<rightharpoonup> jsval) \<times> nat
     \<Rightarrow> trainFile list \<times> (string \<times> string) list \<times> (string \<rightharpoonup> jsval) \<times> nat"
where
  "scan e [] acc = acc"
| "scan e (f # fs) (newTrain, previews, counts, added) =
     (if \<not> isImage f then scan e fs (newTrain, previews, counts, added)
      else
        let lab = labelOf f;
            u = createObjectURL e f
        in scan e fs
             (newTrain @ [\<lparr>tfile = f, label = lab, uri = u\<rparr>],
              previews @ [(u, lab)],
              js_put counts lab (plus_one (js_get counts lab)),
              added + 1))"

definition onAddFolder :: "env \<Rightarrow> jsfile list option \<Rightarrow> state \<Rightarrow> state" where
  "onAddFolder e files st =
     (case files of
        None \<Rightarrow> st
      | Some fs \<Rightarrow>
          if \<not> isWeb e then pushMsg ''Folder import is only supported on web.'' st
          else
            (case scan e fs ([], [], labelCounts st, 0) of
               (newTrain, previews, counts, added) \<Rightarrow>
                 if added = 0
                 then (pushMsg ''No images found in the selected folder.'' st)
                        \<lparr>loading := None\<rparr>
                 else
                   (pushMsg (''Imported '' @ show_nat added @ '' training image(s).'')
                      (st\<lparr>trainFiles := trainFiles st @ newTrain,
                          trainPreviews := take 200 (previews @ trainPreviews st),
                          labelCounts := counts\<rparr>))
                     \<lparr>loading := None\<rparr>))"

subsection \<open>Training the head\<close>

text \<open>\<^verbatim>\<open>fileToImage\<close>: the promise resolves on \<^verbatim>\<open>onload\<close> and rejects on \<^verbatim>\<open>onerror\<close>.\<close>

definition fileToImage :: "env \<Rightarrow> jsfile \<Rightarrow> error + image" where
  "fileToImage e f = (case decode e f of None \<Rightarrow> Inl ImageLoadFailed | Some img \<Rightarrow> Inr img)"

text \<open>Lines 211 to 218: the sorted label array and the object from label to index.\<close>

definition buildLabelSet :: "trainFile list \<Rightarrow> string list" where
  "buildLabelSet tfs = sort (js_Set (map label tfs))"

definition buildLabel2idx :: "string list \<Rightarrow> (string \<rightharpoonup> nat)" where
  "buildLabel2idx labelSet =
     fold (\<lambda>(lab, idx) obj. js_put obj lab idx) (zip labelSet [0..<length labelSet]) Map.empty"

text \<open>
  The loop of lines 228 to 255 on \<^verbatim>\<open>xs\<close>, \<^verbatim>\<open>ys\<close> and \<^verbatim>\<open>featureDim\<close>. The vector that
  \<^verbatim>\<open>net.infer\<close> returns is the embedding already reshaped to its last axis.
\<close>

fun extractLoop ::
  "env \<Rightarrow> mobilenet \<Rightarrow> (string \<rightharpoonup> nat) \<Rightarrow> nat \<Rightarrow> trainFile list
     \<Rightarrow> real list list \<times> real list list \<times> nat option
     \<Rightarrow> error + (real list list \<times> real list list \<times> nat option)"
where
  "extractLoop e n l2i numClasses [] acc = Inr acc"
| "extractLoop e n l2i numClasses (t # ts) (xs, ys, featureDim) =
     (case fileToImage e (tfile t) of
        Inl err \<Rightarrow> Inl err
      | Inr img \<Rightarrow>
          (case infer e n img of
             Inl m \<Rightarrow> Inl (TfError m)
           | Inr feat \<Rightarrow>
               let featureDim' =
                     (case featureDim of None \<Rightarrow> Some (length feat) | Some d \<Rightarrow> Some d)
               in (case oneHot e (js_get l2i (label t)) numClasses of
                     Inl m \<Rightarrow> Inl (TfError m)
                   | Inr y \<Rightarrow>
                       extractLoop e n l2i numClasses ts
                         (xs @ [feat], ys @ [y], featureDim'))))"

text \<open>
  The body of the \<^verbatim>\<open>try\<close> block of \<^verbatim>\<open>onTrainHead\<close>: the lines it logs, in the order
  they are pushed, and either the thrown error or the model with its label mapping
  attached. Building, compiling and fitting the sequential model (lines 267 to 309) is
  the call \<open>fit\<close>, which also yields the epoch lines of its callback.
\<close>

definition trainRun ::
  "env \<Rightarrow> mobilenet \<Rightarrow> trainFile list \<Rightarrow> string list \<times> (error + head)" where
  "trainRun e n tfs =
     (let labelSet = buildLabelSet tfs;
          l2i = buildLabel2idx labelSet;
          numClasses = length labelSet;
          line = ''Training head model on '' @ show_nat (length tfs) @ '' example(s), ''
                   @ show_nat numClasses @ '' class(es)...''
      in case extractLoop e n l2i numClasses tfs ([], [], None) of
           Inl err \<Rightarrow> ([line], Inl err)
         | Inr (xs, ys, featureDim) \<Rightarrow>
             (case featureDim of
                None \<Rightarrow> ([line], Inl NoFeatureDim)
              | Some d \<Rightarrow>
                  (case stack e xs of
                     Inl m \<Rightarrow> ([line], Inl (TfError m))
                   | Inr xTrain \<Rightarrow>
                       (case stack e ys of
                          Inl m \<Rightarrow> ([line], Inl (TfError m))
                        | Inr yTrain \<Rightarrow>
                            (case fit e d numClasses xTrain yTrain (min 16 (length tfs)) of
                               (epochLines, Inl m) \<Rightarrow> (line # epochLines, Inl (TfError m))
                             | (epochLines, Inr params) \<Rightarrow>
                                 (line # epochLines,
                                  Inr \<lparr>model = LayersModel d numClasses params,
                                       label2idx = l2i,
                                       idx2label = labelSet\<rparr>))))))"

definition onTrainHead :: "env \<Rightarrow> state \<Rightarrow> state" where
  "onTrainHead e st =
     (case net st of
        None \<Rightarrow> pushMsg ''Base model (MobileNet) is not ready yet.'' st
      | Some n \<Rightarrow>
          if trainFiles st = []
          then pushMsg ''No training images. Please import a folder first.'' st
          else
            let st1 = st\<lparr>loading := Some ''Extracting features & training head model...'',
                        pred := None, headModel := None\<rparr>
            in (case trainRun e n (trainFiles st) of
                  (logged, Inl err) \<Rightarrow>
                    (pushMsg (''[ERROR] train: '' @ message err) (fold pushMsg logged st1))
                      \<lparr>loading := None\<rparr>
                | (logged, Inr h) \<Rightarrow>
                    (pushMsg ''Training finished. You can now run predictions.''
                       ((fold pushMsg logged st1)\<lparr>headModel := Some h\<rparr>))
                      \<lparr>loading := None\<rparr>))"

subsection \<open>Test image and prediction\<close>

definition onSelectTest :: "env \<Rightarrow> jsfile option \<Rightarrow> state \<Rightarrow> state" where
  "onSelectTest e f st =
     (case f of
        Some g \<Rightarrow> st\<lparr>pred := None, testFile := Some g,
                     testPreview := Some (createObjectURL e g)\<rparr>
      | None \<Rightarrow> st\<lparr>pred := None, testFile := None, testPreview := None\<rparr>)"

text \<open>The loop of lines 386 to 389.\<close>

function bestFrom :: "real list \<Rightarrow> nat \<Rightarrow> nat \<Rightarrow> nat" where
  "bestFrom probs i bestIdx =
     (if i < length probs
      then bestFrom probs (i + 1) (if probs ! i > probs ! bestIdx then i else bestIdx)
      else bestIdx)"
  by pat_completeness auto
termination
  by (relation "measure (\<lambda>(probs, i, bestIdx). length probs - i)") auto

definition buildConfidences :: "string list \<Rightarrow> real list \<Rightarrow> (string \<rightharpoonup> real)" where
  "buildConfidences labelSet probs =
     fold (\<lambda>(lab, idx) obj. js_put obj lab (probs ! idx))
       (zip labelSet [0..<length labelSet]) Map.empty"

text \<open>The body of the \<^verbatim>\<open>try\<close> block of \<^verbatim>\<open>onPredictBtn\<close>.\<close>

definition predictRun :: "env \<Rightarrow> mobilenet \<Rightarrow> head \<Rightarrow> jsfile \<Rightarrow> error + prediction" where
  "predictRun e n h f =
     (case fileToImage e f of
        Inl err \<Rightarrow> Inl err
      | Inr img \<Rightarrow>
          (case infer e n img of
             Inl m \<Rightarrow> Inl (TfError m)
           | Inr feat \<Rightarrow>
               (case forward e (model h) feat of
                  Inl m \<Rightarrow> Inl (TfError m)
                | Inr probs \<Rightarrow>
                    let labelSet = idx2label h
                    in if labelSet = [] \<or> length probs \<noteq> length labelSet
                       then Inl LabelMappingInconsistent
                       else
                         Inr \<lparr>top = labelSet ! bestFrom probs 1 0,
                              confidences = buildConfidences labelSet probs\<rparr>)))"

definition onPredictBtn :: "env \<Rightarrow> state \<Rightarrow> state" where
  "onPredictBtn e st =
     (case net st of
        None \<Rightarrow> pushMsg ''Base model is not ready yet.'' st
      | Some n \<Rightarrow>
          (case headModel st of
             None \<Rightarrow>
               pushMsg ''Head model is not trained yet. Click 'Train head model' first.'' st
           | Some h \<Rightarrow>
               (case testFile st of
                  None \<Rightarrow> pushMsg ''Pick a test image first.'' st
                | Some f \<Rightarrow>
                    let st1 = st\<lparr>loading := Some ''Running inference...'', pred := None\<rparr>
                    in (case predictRun e n h f of
                          Inl err \<Rightarrow>
                            (pushMsg (''[ERROR] predict: '' @ message err) st1)
                              \<lparr>loading := None\<rparr>
                        | Inr p \<Rightarrow>
                            (pushMsg (''Prediction: '' @ top p) (st1\<lparr>pred := Some p\<rparr>))
                              \<lparr>loading := None\<rparr>))))"

subsection \<open>Clear all\<close>

definition onClearAll :: "state \<Rightarrow> state" where
  "onClearAll st =
     pushMsg ''Cleared training data, test image, and head model.''
       (st\<lparr>trainFiles := [], trainPreviews := [], labelCounts := Map.empty,
           testFile := None, testPreview := None, pred := None, headModel := None\<rparr>)"

subsection \<open>The states the screen can be in\<close>

inductive reachable :: "env \<Rightarrow> state \<Rightarrow> bool" for e :: env where
  r_initial: "reachable e initial"
| r_mount: "reachable e st \<Longrightarrow> reachable e (onMount e st)"
| r_add: "reachable e st \<Longrightarrow> reachable e (onAddFolder e files st)"
| r_train: "reachable e st \<Longrightarrow> reachable e (onTrainHead e st)"
| r_select: "reachable e st \<Longrightarrow> reachable e (onSelectTest e f st)"
| r_predict: "reachable e st \<Longrightarrow> reachable e (onPredictBtn e st)"
| r_clear: "reachable e st \<Longrightarrow> reachable e (onClearAll st)"

subsection \<open>Notions used to state the properties\<close>

text \<open>A path written from its segments: the segments with the separator between them.\<close>

fun joinWith :: "char \<Rightarrow> string list \<Rightarrow> string" where
  "joinWith c [] = []"
| "joinWith c [s] = s"
| "joinWith c (s # t # ss) = s @ c # joinWith c (t # ss)"

text \<open>The parent directory among the segments of a path, or the sentinel.\<close>

definition parentOrRoot :: "string list \<Rightarrow> string" where
  "parentOrRoot segs =
     (case rev (filter (\<lambda>s. s \<noteq> []) segs) of
        leaf # parent # rest \<Rightarrow> parent
      | _ \<Rightarrow> ''root'')"

text \<open>The number of held training examples that carry a label.\<close>

definition countOf :: "string \<Rightarrow> trainFile list \<Rightarrow> nat" where
  "countOf l tfs = length (filter (\<lambda>t. label t = l) tfs)"

text \<open>The training example that the import makes of an image file.\<close>

definition imported :: "env \<Rightarrow> jsfile \<Rightarrow> trainFile" where
  "imported e f = \<lparr>tfile = f, label = labelOf f, uri = createObjectURL e f\<rparr>"

text \<open>One extraction of the training loop, and the one-hot row of an example.\<close>

definition featureOf :: "env \<Rightarrow> mobilenet \<Rightarrow> trainFile \<Rightarrow> error + real list" where
  "featureOf e n t =
     (case fileToImage e (tfile t) of
        Inl err \<Rightarrow> Inl err
      | Inr img \<Rightarrow> (case infer e n img of Inl m \<Rightarrow> Inl (TfError m) | Inr feat \<Rightarrow> Inr feat))"

definition rowOf :: "env \<Rightarrow> (string \<rightharpoonup> nat) \<Rightarrow> nat \<Rightarrow> trainFile \<Rightarrow> error + real list" where
  "rowOf e l2i numClasses t =
     (case oneHot e (js_get l2i (label t)) numClasses of
        Inl m \<Rightarrow> Inl (TfError m)
      | Inr y \<Rightarrow> Inr y)"

definition stepOk :: "env \<Rightarrow> mobilenet \<Rightarrow> (string \<rightharpoonup> nat) \<Rightarrow> nat \<Rightarrow> trainFile \<Rightarrow> bool" where
  "stepOk e n l2i numClasses t = (\<not> isl (featureOf e n t) \<and> \<not> isl (rowOf e l2i numClasses t))"


subsection \<open>A concrete browser, and concrete files\<close>

text \<open>
  An environment in which everything works: an image decodes unless its content is
  \<open>0\<close>, the embedding of an image of content \<open>k\<close> has \<open>k\<close> entries, a one-hot
  row needs at least two classes (an index that is not a number is converted to \<open>0\<close>),
  and stacking accepts vectors of one length only. The forward pass of the head is left open; in
  \<open>demoEnv\<close> it answers with the uniform distribution.
\<close>

definition demoOneHot :: "nat lookup \<Rightarrow> nat \<Rightarrow> string + real list" where
  "demoOneHot p depth =
     (if depth < 2
      then Inl (''Error in oneHot: depth must be >=2, but it is '' @ show_nat depth)
      else Inr ((replicate depth 0)
                  [(case p of Own i \<Rightarrow> i | Inherited \<Rightarrow> 0 | Undefined \<Rightarrow> 0) := 1]))"

definition demoStack :: "real list list \<Rightarrow> string + real list list" where
  "demoStack vs =
     (if list_all (\<lambda>v. length v = length (hd vs)) vs then Inr vs
      else Inl ''All tensors passed to stack must have matching shapes'')"

definition demoForward :: "layersModel \<Rightarrow> real list \<Rightarrow> string + real list" where
  "demoForward m feat =
     (case m of
        LayersModel d c params \<Rightarrow>
          if length feat = d then Inr (replicate c (1 / real c))
          else Inl ''Error when checking model input'')"

definition browser :: "(layersModel \<Rightarrow> real list \<Rightarrow> string + real list) \<Rightarrow> env" where
  "browser fwd =
     \<lparr>isWeb = True,
      createObjectURL = (\<lambda>f. ''blob:'' @ fname f),
      decode = (\<lambda>f. if blob f = 0 then None else Some (Image (blob f))),
      prepareBackend = Inr ''webgl'',
      loadMobileNet = Inr (MobileNet 2),
      infer = (\<lambda>n img. case img of Image k \<Rightarrow> Inr (replicate k 1)),
      oneHot = demoOneHot,
      stack = demoStack,
      fit = (\<lambda>d c x y b. ([], Inr [])),
      forward = fwd\<rparr>"

definition demoEnv :: env where
  "demoEnv = browser demoForward"

text \<open>The same browser with a head that answers with three numbers, whatever it was fitted on.\<close>

definition threeEnv :: env where
  "threeEnv = browser (\<lambda>m feat. Inr [1 / 5, 3 / 10, 1 / 2])"

definition pngAt :: "string \<Rightarrow> nat \<Rightarrow> jsfile" where
  "pngAt path k =
     \<lparr>ftype = ''image/png'', webkitRelativePath = path, fname = ''img.png'', blob = k\<rparr>"

definition example :: "string \<Rightarrow> nat \<Rightarrow> trainFile" where
  "example l k = \<lparr>tfile = pngAt (''data/'' @ l @ ''/img.png'') k, label = l, uri = ''blob:img.png''\<rparr>"

definition demoHead :: "string list \<Rightarrow> head" where
  "demoHead labels =
     \<lparr>model = LayersModel 2 (length labels) [],
      label2idx = buildLabel2idx labels,
      idx2label = labels\<rparr>"

text \<open>
  The state after mounting, importing one batch, training and picking a test image.
\<close>

definition query :: jsfile where
  "query = \<lparr>ftype = ''image/png'', webkitRelativePath = [], fname = ''query.png'', blob = 2\<rparr>"

definition trainedOn :: "env \<Rightarrow> jsfile list \<Rightarrow> state" where
  "trainedOn e fs =
     onSelectTest e (Some query)
       (onTrainHead e (onAddFolder e (Some fs) (onMount e initial)))"

definition catsAndDogs :: "jsfile list" where
  "catsAndDogs = [pngAt ''data/cats/a.png'' 2, pngAt ''data/dogs/b.png'' 2]"

text \<open>The trained state after one more import, of an image that does not decode.\<close>

definition withBroken :: state where
  "withBroken =
     onAddFolder demoEnv (Some [pngAt ''data/cats/broken.png'' 0]) (trainedOn demoEnv catsAndDogs)"

text \<open>
  Two labels, and three images whose embeddings have two, three and two entries; the
  state after mounting and importing them.
\<close>

definition mixedBatch :: "jsfile list" where
  "mixedBatch =
     [pngAt ''data/cats/a.png'' 2, pngAt ''data/dogs/b.png'' 3, pngAt ''data/cats/c.png'' 2]"

definition mixedState :: state where
  "mixedState = onAddFolder demoEnv (Some mixedBatch) (onMount demoEnv initial)"

text \<open>The same browser with a head that prefers its second class.\<close>

definition skewEnv :: env where
  "skewEnv = browser (\<lambda>m feat. Inr [1 / 4, 3 / 4])"

text \<open>A folder named \<^verbatim>\<open>__proto__\<close> beside a folder named \<^verbatim>\<open>cats\<close>.\<close>

definition protoBatch :: "jsfile list" where
  "protoBatch = [pngAt ''data/__proto__/a.png'' 2, pngAt ''data/cats/b.png'' 2]"

section \<open>Properties\<close>

text \<open>
  The two loops defined by general recursion are unfolded by hand, one step at a time.
\<close>

declare bestFrom.simps [simp del]
declare show_nat.simps [simp del]

subsection \<open>Sets and the label array\<close>

lemma set_Set_add_all: "set (Set_add_all s xs) = set s \<union> set xs"
  by (induction xs arbitrary: s) auto

lemma distinct_Set_add_all: "distinct s \<Longrightarrow> distinct (Set_add_all s xs)"
  by (induction xs arbitrary: s) auto

lemma set_js_Set: "set (js_Set xs) = set xs"
  by (simp add: js_Set_def set_Set_add_all)

lemma distinct_js_Set: "distinct (js_Set xs)"
  by (simp add: js_Set_def distinct_Set_add_all)

lemma set_buildLabelSet: "set (buildLabelSet tfs) = label ` set tfs"
  by (simp add: buildLabelSet_def set_js_Set)

lemma sorted_buildLabelSet: "sorted (buildLabelSet tfs)"
  by (simp add: buildLabelSet_def)

lemma distinct_buildLabelSet: "distinct (buildLabelSet tfs)"
  by (simp add: buildLabelSet_def distinct_js_Set)

lemma buildLabelSet_sorted_list_of_set:
  "buildLabelSet tfs = sorted_list_of_set (label ` set tfs)"
proof (rule sorted_distinct_set_unique)
  show "sorted (buildLabelSet tfs)" by (rule sorted_buildLabelSet)
  show "distinct (buildLabelSet tfs)" by (rule distinct_buildLabelSet)
  show "sorted (sorted_list_of_set (label ` set tfs))" by simp
  show "distinct (sorted_list_of_set (label ` set tfs))" by simp
  show "set (buildLabelSet tfs) = set (sorted_list_of_set (label ` set tfs))"
    by (simp add: set_buildLabelSet)
qed

lemma buildLabelSet_nonempty: "tfs \<noteq> [] \<Longrightarrow> buildLabelSet tfs \<noteq> []"
proof
  assume "tfs \<noteq> []" and "buildLabelSet tfs = []"
  then have "label ` set tfs = {}"
    using set_buildLabelSet [of tfs] by simp
  with \<open>tfs \<noteq> []\<close> show False by simp
qed

subsection \<open>Objects filled from an array\<close>

lemma zip_upt_snoc:
  "zip (ls @ [x]) [0..<length (ls @ [x])] = zip ls [0..<length ls] @ [(x, length ls)]"
  by simp

lemma fill_proto:
  "fold (\<lambda>(lab, idx) obj. js_put obj lab (g idx)) ps m ''__proto__'' = m ''__proto__''"
  by (induction ps arbitrary: m) (auto simp: js_put_def)

lemma fill_outside:
  "l \<notin> fst ` set ps \<Longrightarrow> fold (\<lambda>(lab, idx) obj. js_put obj lab (g idx)) ps m l = m l"
  by (induction ps arbitrary: m) (auto simp: js_put_def)

lemma fill_at:
  assumes "distinct ls" and "i < length ls" and "ls ! i \<noteq> ''__proto__''"
  shows "fold (\<lambda>(lab, idx) obj. js_put obj lab (g idx)) (zip ls [0..<length ls]) m (ls ! i)
           = Some (g i)"
  using assms
proof (induction ls arbitrary: i rule: rev_induct)
  case Nil
  then show ?case by simp
next
  case (snoc x ls)
  show ?case
  proof (cases "i < length ls")
    case True
    then have neq: "ls ! i \<noteq> x" using snoc.prems(1) by auto
    have "(ls @ [x]) ! i = ls ! i" using True by (simp add: nth_append)
    with snoc True neq show ?thesis
      by (simp add: js_put_def nth_append)
  next
    case False
    then have "i = length ls" using snoc.prems(2) by simp
    with snoc.prems(3) show ?thesis by (simp add: js_put_def)
  qed
qed

lemma fill_dom:
  "dom (fold (\<lambda>(lab, idx) obj. js_put obj lab (g idx)) (zip ls [0..<length ls]) Map.empty)
     = set ls - {''__proto__''}"
proof (induction ls rule: rev_induct)
  case Nil
  then show ?case by simp
next
  case (snoc x ls)
  then show ?case by (auto simp: js_put_def split: if_splits)
qed

subsection \<open>The arg-max loop\<close>



subsection \<open>Paths\<close>

lemma split_on_nonempty: "split_on c s \<noteq> []"
  by (induction s) (auto split: list.splits)

lemma split_on_plain: "c \<notin> set s \<Longrightarrow> split_on c s = [s]"
  by (induction s) auto

lemma split_on_segment:
  "c \<notin> set s \<Longrightarrow> split_on c (s @ c # t) = s # split_on c t"
  by (induction s) auto

lemma split_on_joinWith:
  "segs \<noteq> [] \<Longrightarrow> \<forall>s\<in>set segs. c \<notin> set s \<Longrightarrow> split_on c (joinWith c segs) = segs"
proof (induction c segs rule: joinWith.induct)
  case (1 c)
  then show ?case by simp
next
  case (2 c s)
  then show ?case by (simp add: split_on_plain)
next
  case (3 c s t ss)
  then show ?case by (simp add: split_on_segment)
qed

lemma second_from_end:
  "(if 2 \<le> length ps then ps ! (length ps - 2) else d)
     = (case rev ps of leaf # parent # rest \<Rightarrow> parent | _ \<Rightarrow> d)"
proof (induction ps rule: rev_induct)
  case Nil
  then show ?case by simp
next
  case (snoc x ps)
  show ?case
  proof (cases ps rule: rev_cases)
    case Nil
    then show ?thesis by simp
  next
    case (snoc qs y)
    then show ?thesis by (simp add: nth_append)
  qed
qed

lemma labelOf_parentOrRoot:
  assumes "segs \<noteq> []" and "\<forall>s\<in>set segs. CHR ''/'' \<notin> set s"
    and "relPath f = joinWith CHR ''/'' segs"
  shows "labelOf f = parentOrRoot segs"
proof -
  have "split_on CHR ''/'' (relPath f) = segs"
    using assms by (simp add: split_on_joinWith)
  then show ?thesis
    unfolding labelOf_def parentOrRoot_def Let_def
    by (simp only: second_from_end)
qed

subsection \<open>The import loop\<close>

lemma scan_eq:
  "scan e fs (newTrain, previews, counts, added) =
     (newTrain @ map (imported e) (filter isImage fs),
      previews @ map (\<lambda>f. (createObjectURL e f, labelOf f)) (filter isImage fs),
      fold (\<lambda>lab c. js_put c lab (plus_one (js_get c lab))) (map labelOf (filter isImage fs))
        counts,
      added + length (filter isImage fs))"
  by (induction fs arbitrary: newTrain previews counts added)
     (simp_all add: imported_def Let_def)

lemma scan_filter: "scan e fs acc = scan e (filter isImage fs) acc"
proof -
  obtain a b c d where acc: "acc = (a, b, c, d)" by (cases acc)
  show ?thesis unfolding acc by (simp add: scan_eq)
qed

text \<open>How a count is held for a label that \<^verbatim>\<open>Object.prototype\<close> does not define.\<close>

lemma count_step:
  assumes "l \<notin> set objectPrototypeKeys"
    and "c l = (if k = 0 then None else Some (Number k))"
  shows "js_put c lab (plus_one (js_get c lab)) l
           = (if (if lab = l then Suc k else k) = 0 then None
              else Some (Number (if lab = l then Suc k else k)))"
proof -
  have "l \<noteq> ''__proto__''" using assms(1) by (auto simp: objectPrototypeKeys_def)
  then show ?thesis
    using assms by (auto simp: js_put_def js_get_def plus_one_def)
qed

lemma count_fold:
  assumes "l \<notin> set objectPrototypeKeys"
    and "c l = (if k = 0 then None else Some (Number k))"
  shows "fold (\<lambda>lab c. js_put c lab (plus_one (js_get c lab))) labs c l
           = (if k + length (filter (\<lambda>x. x = l) labs) = 0 then None
              else Some (Number (k + length (filter (\<lambda>x. x = l) labs))))"
  using assms(2)
proof (induction labs arbitrary: c k)
  case Nil
  then show ?case by simp
next
  case (Cons lab labs)
  have step: "js_put c lab (plus_one (js_get c lab)) l
           = (if (if lab = l then Suc k else k) = 0 then None
              else Some (Number (if lab = l then Suc k else k)))"
    using assms(1) Cons.prems by (rule count_step)
  show ?case
    using Cons.IH [of "js_put c lab (plus_one (js_get c lab))" "if lab = l then Suc k else k",
        OF step]
    by (cases "lab = l") simp_all
qed

subsection \<open>What each handler leaves alone\<close>

lemma fold_pushMsg_frame [simp]:
  "ready (fold pushMsg ms st) = ready st"
  "loading (fold pushMsg ms st) = loading st"
  "net (fold pushMsg ms st) = net st"
  "trainFiles (fold pushMsg ms st) = trainFiles st"
  "labelCounts (fold pushMsg ms st) = labelCounts st"
  "headModel (fold pushMsg ms st) = headModel st"
  "trainPreviews (fold pushMsg ms st) = trainPreviews st"
  "testPreview (fold pushMsg ms st) = testPreview st"
  "testFile (fold pushMsg ms st) = testFile st"
  "pred (fold pushMsg ms st) = pred st"
  by (induction ms arbitrary: st) (simp_all add: pushMsg_def)

lemma onMount_frame [simp]:
  "trainFiles (onMount e st) = trainFiles st"
  "labelCounts (onMount e st) = labelCounts st"
  "headModel (onMount e st) = headModel st"
  "trainPreviews (onMount e st) = trainPreviews st"
  "testFile (onMount e st) = testFile st"
  "pred (onMount e st) = pred st"
  by (simp_all add: onMount_def pushMsg_def Let_def split: sum.splits)

lemma onAddFolder_frame [simp]:
  "net (onAddFolder e files st) = net st"
  "headModel (onAddFolder e files st) = headModel st"
  "testFile (onAddFolder e files st) = testFile st"
  "testPreview (onAddFolder e files st) = testPreview st"
  "pred (onAddFolder e files st) = pred st"
  by (simp_all add: onAddFolder_def pushMsg_def split: option.splits prod.splits)

lemma onAddFolder_trainFiles:
  "trainFiles (onAddFolder e (Some fs) st) =
     (if isWeb e then trainFiles st @ map (imported e) (filter isImage fs) else trainFiles st)"
  by (simp add: onAddFolder_def pushMsg_def scan_eq)

lemma onAddFolder_labelCounts:
  "labelCounts (onAddFolder e (Some fs) st) =
     (if isWeb e
      then fold (\<lambda>lab c. js_put c lab (plus_one (js_get c lab)))
             (map labelOf (filter isImage fs)) (labelCounts st)
      else labelCounts st)"
  by (auto simp: onAddFolder_def pushMsg_def scan_eq)

lemma onAddFolder_trainPreviews:
  "trainPreviews (onAddFolder e (Some fs) st) =
     (if isWeb e \<and> filter isImage fs \<noteq> []
      then take 200 (map (\<lambda>f. (createObjectURL e f, labelOf f)) (filter isImage fs)
                       @ trainPreviews st)
      else trainPreviews st)"
  by (auto simp: onAddFolder_def pushMsg_def scan_eq)

lemma onAddFolder_None [simp]: "onAddFolder e None st = st"
  by (simp add: onAddFolder_def)

lemma onTrainHead_frame [simp]:
  "net (onTrainHead e st) = net st"
  "trainFiles (onTrainHead e st) = trainFiles st"
  "labelCounts (onTrainHead e st) = labelCounts st"
  "trainPreviews (onTrainHead e st) = trainPreviews st"
  "testFile (onTrainHead e st) = testFile st"
  "testPreview (onTrainHead e st) = testPreview st"
  by (simp_all add: onTrainHead_def pushMsg_def Let_def
        split: option.splits prod.splits sum.splits)

lemma onSelectTest_frame [simp]:
  "net (onSelectTest e f st) = net st"
  "trainFiles (onSelectTest e f st) = trainFiles st"
  "labelCounts (onSelectTest e f st) = labelCounts st"
  "trainPreviews (onSelectTest e f st) = trainPreviews st"
  "headModel (onSelectTest e f st) = headModel st"
  by (simp_all add: onSelectTest_def split: option.splits)

lemma onPredictBtn_frame [simp]:
  "net (onPredictBtn e st) = net st"
  "trainFiles (onPredictBtn e st) = trainFiles st"
  "labelCounts (onPredictBtn e st) = labelCounts st"
  "trainPreviews (onPredictBtn e st) = trainPreviews st"
  "headModel (onPredictBtn e st) = headModel st"
  "testFile (onPredictBtn e st) = testFile st"
  by (simp_all add: onPredictBtn_def pushMsg_def Let_def
        split: option.splits prod.splits sum.splits)

subsection \<open>Invariants of the reachable states\<close>

lemma countOf_append_imported:
  "countOf l (tfs @ map (imported e) fs)
     = countOf l tfs + length (filter (\<lambda>x. x = l) (map labelOf fs))"
  by (induction fs) (simp_all add: countOf_def imported_def)

lemma counts_exact:
  assumes "reachable e st" and "l \<notin> set objectPrototypeKeys"
  shows "labelCounts st l =
           (if countOf l (trainFiles st) = 0 then None
            else Some (Number (countOf l (trainFiles st))))"
  using assms(1)
proof (induction rule: reachable.induct)
  case r_initial
  then show ?case by (simp add: initial_def countOf_def)
next
  case (r_add st files)
  show ?case
  proof (cases files)
    case None
    with r_add show ?thesis by simp
  next
    case (Some fs)
    show ?thesis
    proof (cases "isWeb e")
      case False
      with r_add Some show ?thesis
        by (simp add: onAddFolder_trainFiles onAddFolder_labelCounts)
    next
      case True
      let ?labs = "map labelOf (filter isImage fs)"
      let ?k = "countOf l (trainFiles st)"
      have tf: "countOf l (trainFiles (onAddFolder e (Some fs) st))
                  = ?k + length (filter (\<lambda>x. x = l) ?labs)"
        using True by (simp only: onAddFolder_trainFiles countOf_append_imported if_True)
      have lc: "labelCounts (onAddFolder e (Some fs) st) l
                  = fold (\<lambda>lab c. js_put c lab (plus_one (js_get c lab))) ?labs
                      (labelCounts st) l"
        using True by (simp only: onAddFolder_labelCounts if_True)
      show ?thesis
        unfolding Some tf lc
        by (rule count_fold [of l "labelCounts st" ?k ?labs, OF assms(2) r_add.IH])
    qed
  qed
next
  case (r_clear st)
  then show ?case by (simp add: onClearAll_def pushMsg_def countOf_def)
qed simp_all

lemma trainRun_head:
  "snd (trainRun e n tfs) = Inr h \<Longrightarrow>
     idx2label h = buildLabelSet tfs \<and> label2idx h = buildLabel2idx (buildLabelSet tfs)"
  by (auto simp: trainRun_def Let_def split: sum.splits prod.splits option.splits)

lemma onTrainHead_head:
  "headModel (onTrainHead e st) = Some h \<Longrightarrow>
     (headModel st = Some h \<and> (net st = None \<or> trainFiles st = []))
     \<or> (\<exists>n. net st = Some n \<and> trainFiles st \<noteq> []
            \<and> snd (trainRun e n (trainFiles st)) = Inr h)"
  by (auto simp: onTrainHead_def pushMsg_def Let_def
        split: option.splits prod.splits sum.splits if_splits)

lemma head_labels:
  assumes "reachable e st" and "headModel st = Some h"
  shows "idx2label h \<noteq> [] \<and> sorted (idx2label h) \<and> distinct (idx2label h)"
  using assms
proof (induction arbitrary: h rule: reachable.induct)
  case r_initial
  then show ?case by (simp add: initial_def)
next
  case (r_train st)
  from onTrainHead_head [OF r_train.prems] show ?case
  proof
    assume "headModel st = Some h \<and> (net st = None \<or> trainFiles st = [])"
    then show ?thesis using r_train.IH by simp
  next
    assume "\<exists>n. net st = Some n \<and> trainFiles st \<noteq> []
              \<and> snd (trainRun e n (trainFiles st)) = Inr h"
    then obtain n where ne: "trainFiles st \<noteq> []"
      and run: "snd (trainRun e n (trainFiles st)) = Inr h" by blast
    from trainRun_head [OF run] have "idx2label h = buildLabelSet (trainFiles st)" by simp
    with ne show ?thesis
      by (simp add: buildLabelSet_nonempty sorted_buildLabelSet distinct_buildLabelSet)
  qed
next
  case (r_clear st)
  then show ?case by (simp add: onClearAll_def pushMsg_def)
qed simp_all

subsection \<open>Evaluating the concrete browser\<close>

lemma browser_fields [simp]:
  "isWeb (browser fwd)"
  "createObjectURL (browser fwd) f = ''blob:'' @ fname f"
  "decode (browser fwd) f = (if blob f = 0 then None else Some (Image (blob f)))"
  "prepareBackend (browser fwd) = Inr ''webgl''"
  "loadMobileNet (browser fwd) = Inr (MobileNet 2)"
  "infer (browser fwd) n (Image k) = Inr (replicate k 1)"
  "oneHot (browser fwd) = demoOneHot"
  "stack (browser fwd) = demoStack"
  "fit (browser fwd) d c x y b = ([], Inr [])"
  "forward (browser fwd) = fwd"
  by (simp_all add: browser_def)

lemmas demo_envs [simp] = demoEnv_def threeEnv_def skewEnv_def

lemma isImage_pngAt [simp]: "isImage (pngAt path k)"
  by (simp add: isImage_def pngAt_def startsWith_def)

lemma labelOf_cats [simp]: "labelOf (pngAt ''data/cats/a.png'' k) = ''cats''"
  by (simp add: labelOf_def relPath_def pngAt_def)

lemma labelOf_dogs [simp]: "labelOf (pngAt ''data/dogs/b.png'' k) = ''dogs''"
  by (simp add: labelOf_def relPath_def pngAt_def)

lemma labelOf_top [simp]: "labelOf (pngAt ''a.png'' k) = ''root''"
  by (simp add: labelOf_def relPath_def pngAt_def)

lemma labelOf_constructor [simp]:
  "labelOf (pngAt ''data/constructor/a.png'' k) = ''constructor''"
  by (simp add: labelOf_def relPath_def pngAt_def)

lemma labelOf_proto [simp]: "labelOf (pngAt ''data/__proto__/a.png'' k) = ''__proto__''"
  by (simp add: labelOf_def relPath_def pngAt_def)

lemma pngAt_fields [simp]:
  "ftype (pngAt path k) = ''image/png''"
  "webkitRelativePath (pngAt path k) = path"
  "fname (pngAt path k) = ''img.png''"
  "blob (pngAt path k) = k"
  by (simp_all add: pngAt_def)

lemma onMount_demo [simp]: "net (onMount (browser fwd) st) = Some (MobileNet 2)"
  by (simp add: onMount_def pushMsg_def)

lemma onSelectTest_testFile [simp]: "testFile (onSelectTest e f st) = f"
  by (simp add: onSelectTest_def split: option.splits)

lemma onTrainHead_succeeded:
  assumes "net st = Some n" and "trainFiles st \<noteq> []"
    and "snd (trainRun e n (trainFiles st)) = Inr h"
  shows "headModel (onTrainHead e st) = Some h"
  using assms
  by (cases "trainRun e n (trainFiles st)")
     (simp add: onTrainHead_def pushMsg_def Let_def)

lemma onTrainHead_failed:
  assumes "net st = Some n" and "trainFiles st \<noteq> []"
    and "snd (trainRun e n (trainFiles st)) = Inl err"
  shows "headModel (onTrainHead e st) = None" and "pred (onTrainHead e st) = None"
  using assms
  by (cases "trainRun e n (trainFiles st)"; simp add: onTrainHead_def pushMsg_def Let_def)+

lemma buildLabelSet_catsAndDogs:
  "buildLabelSet (map (imported (browser fwd)) catsAndDogs) = [''cats'', ''dogs'']"
  by (simp add: buildLabelSet_def js_Set_def catsAndDogs_def imported_def)

lemma trainRun_catsAndDogs:
  "snd (trainRun (browser fwd) (MobileNet 2) (map (imported (browser fwd)) catsAndDogs))
     = Inr (demoHead [''cats'', ''dogs''])"
  unfolding trainRun_def buildLabelSet_catsAndDogs Let_def
  by (simp add: catsAndDogs_def imported_def fileToImage_def demoOneHot_def
        demoStack_def demoHead_def buildLabel2idx_def js_put_def js_get_def)

lemma trainedOn_fields [simp]:
  "net (trainedOn (browser fwd) fs) = Some (MobileNet 2)"
  "trainFiles (trainedOn (browser fwd) fs) = map (imported (browser fwd)) (filter isImage fs)"
  "testFile (trainedOn (browser fwd) fs) = Some query"
  by (simp_all add: trainedOn_def onAddFolder_trainFiles initial_def)

lemma trainedOn_catsAndDogs_head:
  "headModel (trainedOn (browser fwd) catsAndDogs) = Some (demoHead [''cats'', ''dogs''])"
proof -
  let ?st = "onAddFolder (browser fwd) (Some catsAndDogs) (onMount (browser fwd) initial)"
  have tf: "trainFiles ?st = map (imported (browser fwd)) catsAndDogs"
    by (simp add: onAddFolder_trainFiles initial_def catsAndDogs_def)
  have "headModel (onTrainHead (browser fwd) ?st) = Some (demoHead [''cats'', ''dogs''])"
  proof (rule onTrainHead_succeeded)
    show "net ?st = Some (MobileNet 2)" by simp
    show "trainFiles ?st \<noteq> []" unfolding tf by (simp add: catsAndDogs_def)
    show "snd (trainRun (browser fwd) (MobileNet 2) (trainFiles ?st)) = Inr (demoHead [''cats'', ''dogs''])"
      by (simp only: tf trainRun_catsAndDogs)
  qed
  then show ?thesis by (simp add: trainedOn_def)
qed

lemma reachable_trainedOn: "reachable e (trainedOn e fs)"
  unfolding trainedOn_def
  by (intro r_select r_train r_add r_mount r_initial)

subsection \<open>What training and prediction do to the head and the prediction\<close>

lemma onTrainHead_rejected:
  "net st = None \<or> trainFiles st = [] \<Longrightarrow>
     headModel (onTrainHead e st) = headModel st \<and> pred (onTrainHead e st) = pred st"
  by (auto simp: onTrainHead_def pushMsg_def split: option.splits)

lemma onPredictBtn_pred:
  "pred (onPredictBtn e st) =
     (case net st of
        None \<Rightarrow> pred st
      | Some n \<Rightarrow>
          (case headModel st of
             None \<Rightarrow> pred st
           | Some h \<Rightarrow>
               (case testFile st of
                  None \<Rightarrow> pred st
                | Some f \<Rightarrow>
                    (case predictRun e n h f of Inl err \<Rightarrow> None | Inr p \<Rightarrow> Some p))))"
  by (simp add: onPredictBtn_def pushMsg_def Let_def split: option.splits sum.splits)


lemma fileToImage_error: "fileToImage e f = Inl err \<Longrightarrow> err = ImageLoadFailed"
  by (simp add: fileToImage_def split: option.splits)

lemma predictRun_inconsistent:
  assumes "idx2label h \<noteq> []"
  shows "(predictRun e n h f = Inl LabelMappingInconsistent) =
           (\<exists>img feat probs.
              fileToImage e f = Inr img \<and> infer e n img = Inr feat
              \<and> forward e (model h) feat = Inr probs
              \<and> length probs \<noteq> length (idx2label h))"
proof (cases "fileToImage e f")
  case (Inl err)
  then show ?thesis
    using fileToImage_error [OF Inl] by (simp add: predictRun_def)
next
  case img: (Inr img)
  show ?thesis
  proof (cases "infer e n img")
    case (Inl m)
    with img show ?thesis by (simp add: predictRun_def)
  next
    case feat: (Inr feat)
    show ?thesis
    proof (cases "forward e (model h) feat")
      case (Inl m)
      with img feat show ?thesis by (simp add: predictRun_def)
    next
      case (Inr probs)
      with img feat assms show ?thesis by (simp add: predictRun_def Let_def)
    qed
  qed
qed

subsection \<open>The concrete states\<close>

lemma query_fields [simp]:
  "ftype query = ''image/png''" "webkitRelativePath query = []"
  "fname query = ''query.png''" "blob query = 2"
  by (simp_all add: query_def)

lemma demoHead_fields [simp]:
  "model (demoHead labels) = LayersModel 2 (length labels) []"
  "idx2label (demoHead labels) = labels"
  "label2idx (demoHead labels) = buildLabel2idx labels"
  by (simp_all add: demoHead_def)

lemma bestFrom_halves: "bestFrom [1 / 2, 1 / 2] (Suc 0) 0 = 0"
  by (simp add: bestFrom.simps)


lemma predictRun_three:
  "predictRun (browser (\<lambda>m feat. Inr [1 / 5, 3 / 10, 1 / 2])) (MobileNet 2)
     (demoHead [''cats'', ''dogs'']) query = Inl LabelMappingInconsistent"
  by (simp add: predictRun_def fileToImage_def)



lemma labelOf_broken [simp]: "labelOf (pngAt ''data/cats/broken.png'' k) = ''cats''"
  by (simp add: labelOf_def relPath_def)

lemma filter_catsAndDogs [simp]: "filter isImage catsAndDogs = catsAndDogs"
  by (simp add: catsAndDogs_def)

lemma withBroken_fields:
  "net withBroken = Some (MobileNet 2)"
  "headModel withBroken = Some (demoHead [''cats'', ''dogs''])"
  "trainFiles withBroken
     = map (imported demoEnv) (catsAndDogs @ [pngAt ''data/cats/broken.png'' 0])"
  by (simp_all add: withBroken_def trainedOn_catsAndDogs_head onAddFolder_trainFiles)

lemma trainRun_withBroken:
  "snd (trainRun demoEnv (MobileNet 2) (trainFiles withBroken)) = Inl ImageLoadFailed"
  unfolding withBroken_fields
  by (simp add: trainRun_def Let_def catsAndDogs_def imported_def fileToImage_def
        demoOneHot_def buildLabelSet_def js_Set_def buildLabel2idx_def js_put_def js_get_def)

subsection \<open>The extraction loop\<close>

lemma extractLoop_ok:
  "list_all (stepOk e n l2i numClasses) tfs \<Longrightarrow>
     extractLoop e n l2i numClasses tfs (xs, ys, featureDim) =
       Inr (xs @ map (\<lambda>t. projr (featureOf e n t)) tfs,
            ys @ map (\<lambda>t. projr (rowOf e l2i numClasses t)) tfs,
            (case featureDim of
               Some d \<Rightarrow> Some d
             | None \<Rightarrow>
                 (case tfs of
                    [] \<Rightarrow> None
                  | t # ts \<Rightarrow> Some (length (projr (featureOf e n t))))))"
proof (induction tfs arbitrary: xs ys featureDim)
  case Nil
  then show ?case by (simp split: option.splits)
next
  case (Cons t ts)
  from Cons.prems have ok: "stepOk e n l2i numClasses t"
    and rest: "list_all (stepOk e n l2i numClasses) ts" by simp_all
  from ok obtain feat y where
    f: "featureOf e n t = Inr feat" and y: "rowOf e l2i numClasses t = Inr y"
    by (cases "featureOf e n t"; cases "rowOf e l2i numClasses t") (auto simp: stepOk_def)
  from f obtain img where img: "fileToImage e (tfile t) = Inr img"
    and inf: "infer e n img = Inr feat"
    by (auto simp: featureOf_def split: sum.splits)
  from y have oh: "oneHot e (js_get l2i (label t)) numClasses = Inr y"
    by (auto simp: rowOf_def split: sum.splits)
  show ?case
    using Cons.IH [OF rest] img inf oh f y
    by (simp add: Let_def split: option.splits)
qed

lemma extractLoop_fails:
  "\<not> list_all (stepOk e n l2i numClasses) tfs \<Longrightarrow>
     isl (extractLoop e n l2i numClasses tfs (xs, ys, featureDim))"
proof (induction tfs arbitrary: xs ys featureDim)
  case Nil
  then show ?case by simp
next
  case (Cons t ts)
  show ?case
  proof (cases "stepOk e n l2i numClasses t")
    case True
    with Cons.prems have "\<not> list_all (stepOk e n l2i numClasses) ts" by simp
    from Cons.IH [OF this] show ?thesis
      by (simp add: Let_def split: sum.splits)
  next
    case False
    then show ?thesis
      by (auto simp: stepOk_def featureOf_def rowOf_def Let_def split: sum.splits)
  qed
qed

lemma trainRun_stack_rejects:
  assumes "extractLoop e n (buildLabel2idx (buildLabelSet tfs)) (length (buildLabelSet tfs))
             tfs ([], [], None) = Inr (xs, ys, Some d)"
    and "stack e xs = Inl m"
  shows "snd (trainRun e n tfs) = Inl (TfError m)"
  using assms by (simp add: trainRun_def Let_def)

lemma example_fields [simp]:
  "tfile (example l k) = pngAt (''data/'' @ l @ ''/img.png'') k"
  "label (example l k) = l"
  by (simp_all add: example_def)

lemma labelOf_cats_c [simp]: "labelOf (pngAt ''data/cats/c.png'' k) = ''cats''"
  by (simp add: labelOf_def relPath_def)

lemma filter_mixedBatch [simp]: "filter isImage mixedBatch = mixedBatch"
  by (simp add: mixedBatch_def)

lemma mixedState_fields:
  "net mixedState = Some (MobileNet 2)"
  "headModel mixedState = None"
  "trainFiles mixedState = map (imported demoEnv) mixedBatch"
  by (simp_all add: mixedState_def onAddFolder_trainFiles initial_def)

lemma buildLabelSet_mixed:
  "buildLabelSet (map (imported demoEnv) mixedBatch) = [''cats'', ''dogs'']"
  by (simp add: buildLabelSet_def js_Set_def mixedBatch_def imported_def)

lemma buildLabel2idx_catsAndDogs:
  "js_get (buildLabel2idx [''cats'', ''dogs'']) ''cats'' = Own 0"
  "js_get (buildLabel2idx [''cats'', ''dogs'']) ''dogs'' = Own 1"
  by (simp_all add: buildLabel2idx_def js_put_def js_get_def)

lemma extractLoop_mixed:
  "extractLoop demoEnv (MobileNet 2) (buildLabel2idx [''cats'', ''dogs'']) 2
       (map (imported demoEnv) mixedBatch) ([], [], None)
     = Inr ([[1, 1], [1, 1, 1], [1, 1]], [[1, 0], [0, 1], [1, 0]], Some 2)"
  by (simp add: mixedBatch_def imported_def fileToImage_def buildLabel2idx_catsAndDogs
        demoOneHot_def numeral_3_eq_3 numeral_2_eq_2)

lemma stepOk_mixed:
  "list_all (stepOk demoEnv (MobileNet 2) (buildLabel2idx [''cats'', ''dogs'']) 2)
     (map (imported demoEnv) mixedBatch)"
  by (simp add: mixedBatch_def imported_def stepOk_def featureOf_def rowOf_def
        fileToImage_def demoOneHot_def)

lemma stack_mixed:
  "stack demoEnv [[1, 1], [1, 1, 1], [1, 1]]
     = Inl ''All tensors passed to stack must have matching shapes''"
  by (simp add: demoStack_def)

subsection \<open>The label index\<close>

lemma buildLabelSet_same_set:
  "label ` set tfs = label ` set tfs' \<Longrightarrow> buildLabelSet tfs = buildLabelSet tfs'"
  by (simp add: buildLabelSet_sorted_list_of_set)

lemma buildLabelSet_rebuild:
  "buildLabelSet (map (\<lambda>l. \<lparr>tfile = f, label = l, uri = u\<rparr>) (buildLabelSet tfs))
     = buildLabelSet tfs"
proof -
  have "label ` set (map (\<lambda>l. \<lparr>tfile = f, label = l, uri = u\<rparr>) (buildLabelSet tfs))
          = label ` set tfs"
    by (simp add: image_image set_buildLabelSet)
  then show ?thesis by (rule buildLabelSet_same_set)
qed

lemma buildLabel2idx_at:
  assumes "distinct ls" and "i < length ls" and "ls ! i \<noteq> ''__proto__''"
  shows "js_get (buildLabel2idx ls) (ls ! i) = Own i"
  using fill_at [OF assms, of "\<lambda>idx. idx" Map.empty]
  by (simp add: buildLabel2idx_def js_get_def)

lemma buildLabel2idx_dom: "dom (buildLabel2idx ls) = set ls - {''__proto__''}"
  unfolding buildLabel2idx_def by (rule fill_dom [of "\<lambda>idx. idx"])

lemma label_index_position:
  assumes "i < length (buildLabelSet tfs)" and "buildLabelSet tfs ! i \<noteq> ''__proto__''"
  shows "js_get (buildLabel2idx (buildLabelSet tfs)) (buildLabelSet tfs ! i) = Own i"
  using distinct_buildLabelSet assms by (rule buildLabel2idx_at)

subsection \<open>The prediction\<close>


lemma buildConfidences_dom: "dom (buildConfidences ls probs) = set ls - {''__proto__''}"
  unfolding buildConfidences_def by (rule fill_dom [of "\<lambda>idx. probs ! idx"])


subsection \<open>A folder named after a property of the prototype\<close>

lemma labelOf_cats_b [simp]: "labelOf (pngAt ''data/cats/b.png'' k) = ''cats''"
  by (simp add: labelOf_def relPath_def)

lemma filter_protoBatch [simp]: "filter isImage protoBatch = protoBatch"
  by (simp add: protoBatch_def)

lemma buildLabelSet_protoBatch:
  "buildLabelSet (map (imported (browser fwd)) protoBatch) = [''__proto__'', ''cats'']"
  by (simp add: buildLabelSet_def js_Set_def protoBatch_def imported_def)

lemma buildLabel2idx_proto:
  "js_get (buildLabel2idx [''__proto__'', ''cats'']) ''__proto__'' = Inherited"
  "js_get (buildLabel2idx [''__proto__'', ''cats'']) ''cats'' = Own 1"
  "buildLabel2idx [''__proto__'', ''cats''] ''__proto__'' = None"
  by (simp_all add: buildLabel2idx_def js_put_def js_get_def objectPrototypeKeys_def)

lemma trainRun_protoBatch:
  "snd (trainRun (browser fwd) (MobileNet 2) (map (imported (browser fwd)) protoBatch))
     = Inr (demoHead [''__proto__'', ''cats''])"
  unfolding trainRun_def buildLabelSet_protoBatch Let_def
  by (simp add: protoBatch_def imported_def fileToImage_def demoOneHot_def
        demoStack_def demoHead_def buildLabel2idx_proto)

lemma trainedOn_protoBatch_head:
  "headModel (trainedOn (browser fwd) protoBatch) = Some (demoHead [''__proto__'', ''cats''])"
proof -
  let ?st = "onAddFolder (browser fwd) (Some protoBatch) (onMount (browser fwd) initial)"
  have tf: "trainFiles ?st = map (imported (browser fwd)) protoBatch"
    by (simp add: onAddFolder_trainFiles initial_def)
  have "headModel (onTrainHead (browser fwd) ?st) = Some (demoHead [''__proto__'', ''cats''])"
  proof (rule onTrainHead_succeeded)
    show "net ?st = Some (MobileNet 2)" by simp
    show "trainFiles ?st \<noteq> []" unfolding tf by (simp add: protoBatch_def)
    show "snd (trainRun (browser fwd) (MobileNet 2) (trainFiles ?st))
            = Inr (demoHead [''__proto__'', ''cats''])"
      by (simp only: tf trainRun_protoBatch)
  qed
  then show ?thesis by (simp add: trainedOn_def)
qed

lemma predictRun_proto:
  "predictRun (browser demoForward) (MobileNet 2) (demoHead [''__proto__'', ''cats'']) query
     = Inr \<lparr>top = ''__proto__'',
            confidences = buildConfidences [''__proto__'', ''cats''] [1 / 2, 1 / 2]\<rparr>"
  by (simp add: predictRun_def fileToImage_def demoForward_def bestFrom_halves Let_def)

lemma buildConfidences_proto:
  "buildConfidences [''__proto__'', ''cats''] [1 / 2, 1 / 2] ''__proto__'' = None"
  "buildConfidences [''__proto__'', ''cats''] [1 / 2, 1 / 2] ''cats'' = Some (1 / 2)"
  by (simp_all add: buildConfidences_def js_put_def)

section \<open>The claims\<close>

text \<open>
  C1, as the code has it. A training run that has started (the base model is loaded and
  there are training files) and ends in an error leaves no head installed: the head that
  was there and the last prediction are dropped when the run starts, and nothing is
  installed afterwards. The training files, the label counts, the previews and the test
  image are left as they were.
\<close>

theorem C1_failed_run_leaves_no_head:
  assumes "net st = Some n" and "trainFiles st \<noteq> []"
    and "snd (trainRun e n (trainFiles st)) = Inl err"
  shows "headModel (onTrainHead e st) = None
         \<and> pred (onTrainHead e st) = None
         \<and> trainFiles (onTrainHead e st) = trainFiles st
         \<and> labelCounts (onTrainHead e st) = labelCounts st
         \<and> trainPreviews (onTrainHead e st) = trainPreviews st
         \<and> testFile (onTrainHead e st) = testFile st"
  using onTrainHead_failed [OF assms] by simp

theorem C1_counterexample:
  "headModel withBroken = Some (demoHead [''cats'', ''dogs''])
   \<and> snd (trainRun demoEnv (MobileNet 2) (trainFiles withBroken)) = Inl ImageLoadFailed
   \<and> headModel (onTrainHead demoEnv withBroken) = None"
proof -
  have "headModel (onTrainHead demoEnv withBroken) = None"
    by (rule onTrainHead_failed [OF withBroken_fields(1) _ trainRun_withBroken])
       (simp add: withBroken_fields catsAndDogs_def)
  with withBroken_fields(2) trainRun_withBroken show ?thesis
    by blast
qed

theorem C1_witness:
  "net withBroken = Some (MobileNet 2)
   \<and> trainFiles withBroken \<noteq> []
   \<and> snd (trainRun demoEnv (MobileNet 2) (trainFiles withBroken)) = Inl ImageLoadFailed
   \<and> headModel (onTrainHead demoEnv withBroken) = None
   \<and> pred (onTrainHead demoEnv withBroken) = None
   \<and> trainFiles (onTrainHead demoEnv withBroken) = trainFiles withBroken"
proof -
  have ne: "trainFiles withBroken \<noteq> []"
    by (simp add: withBroken_fields catsAndDogs_def)
  show ?thesis
    using C1_failed_run_leaves_no_head [OF withBroken_fields(1) ne trainRun_withBroken]
      withBroken_fields(1) ne trainRun_withBroken
    by blast
qed

text \<open>
  C2, as the code has it. The feature dimension is recorded at the first extraction and
  is not compared with any later one: the loop finishes exactly when every image loads and
  every library call returns, whatever the lengths of the vectors; it keeps each vector as
  it was extracted, and \<^verbatim>\<open>featureDim\<close> is the length of the first. Vectors of different
  lengths reach \<^verbatim>\<open>tf.stack\<close>; when that call throws, its error ends the run and no head
  is installed.
\<close>

theorem C2_dimension_is_recorded_not_checked:
  "(\<not> isl (extractLoop e n l2i numClasses tfs ([], [], None)))
      = list_all (stepOk e n l2i numClasses) tfs
   \<and> (list_all (stepOk e n l2i numClasses) tfs \<longrightarrow>
        extractLoop e n l2i numClasses tfs ([], [], None) =
          Inr (map (\<lambda>t. projr (featureOf e n t)) tfs,
               map (\<lambda>t. projr (rowOf e l2i numClasses t)) tfs,
               (case tfs of
                  [] \<Rightarrow> None
                | t # ts \<Rightarrow> Some (length (projr (featureOf e n t))))))
   \<and> (net st = Some n \<and> trainFiles st \<noteq> []
        \<and> extractLoop e n (buildLabel2idx (buildLabelSet (trainFiles st)))
              (length (buildLabelSet (trainFiles st))) (trainFiles st) ([], [], None)
            = Inr (xs, ys, Some d)
        \<and> stack e xs = Inl m \<longrightarrow>
        snd (trainRun e n (trainFiles st)) = Inl (TfError m)
        \<and> headModel (onTrainHead e st) = None)"
proof (intro conjI impI)
  show "(\<not> isl (extractLoop e n l2i numClasses tfs ([], [], None)))
          = list_all (stepOk e n l2i numClasses) tfs"
  proof (cases "list_all (stepOk e n l2i numClasses) tfs")
    case True
    then show ?thesis by (simp add: extractLoop_ok)
  next
    case False
    then show ?thesis using extractLoop_fails [OF False] by simp
  qed
next
  assume "list_all (stepOk e n l2i numClasses) tfs"
  then show "extractLoop e n l2i numClasses tfs ([], [], None) =
          Inr (map (\<lambda>t. projr (featureOf e n t)) tfs,
               map (\<lambda>t. projr (rowOf e l2i numClasses t)) tfs,
               (case tfs of
                  [] \<Rightarrow> None
                | t # ts \<Rightarrow> Some (length (projr (featureOf e n t)))))"
    by (simp add: extractLoop_ok)
next
  assume a: "net st = Some n \<and> trainFiles st \<noteq> []
        \<and> extractLoop e n (buildLabel2idx (buildLabelSet (trainFiles st)))
              (length (buildLabelSet (trainFiles st))) (trainFiles st) ([], [], None)
            = Inr (xs, ys, Some d)
        \<and> stack e xs = Inl m"
  then show run: "snd (trainRun e n (trainFiles st)) = Inl (TfError m)"
    using trainRun_stack_rejects by blast
  from a have "net st = Some n" and "trainFiles st \<noteq> []" by simp_all
  then show "headModel (onTrainHead e st) = None"
    using run by (rule onTrainHead_failed(1))
qed

theorem C2_counterexample:
  "extractLoop demoEnv (MobileNet 2) (buildLabel2idx (buildLabelSet (trainFiles mixedState)))
       (length (buildLabelSet (trainFiles mixedState))) (trainFiles mixedState) ([], [], None)
     = Inr ([[1, 1], [1, 1, 1], [1, 1]], [[1, 0], [0, 1], [1, 0]], Some 2)
   \<and> snd (trainRun demoEnv (MobileNet 2) (trainFiles mixedState))
       = Inl (TfError ''All tensors passed to stack must have matching shapes'')
   \<and> headModel (onTrainHead demoEnv mixedState) = None"
proof -
  have loop: "extractLoop demoEnv (MobileNet 2)
       (buildLabel2idx (buildLabelSet (trainFiles mixedState)))
       (length (buildLabelSet (trainFiles mixedState))) (trainFiles mixedState) ([], [], None)
     = Inr ([[1, 1], [1, 1, 1], [1, 1]], [[1, 0], [0, 1], [1, 0]], Some 2)"
    unfolding mixedState_fields buildLabelSet_mixed
    using extractLoop_mixed by (simp add: numeral_2_eq_2)
  have run: "snd (trainRun demoEnv (MobileNet 2) (trainFiles mixedState))
       = Inl (TfError ''All tensors passed to stack must have matching shapes'')"
    by (rule trainRun_stack_rejects [OF loop stack_mixed])
  have ne: "trainFiles mixedState \<noteq> []"
    unfolding mixedState_fields by (simp add: mixedBatch_def)
  have "headModel (onTrainHead demoEnv mixedState) = None"
    by (rule onTrainHead_failed(1) [OF mixedState_fields(1) ne run])
  with loop run show ?thesis by blast
qed

theorem C2_witness:
  "list_all (stepOk demoEnv (MobileNet 2) (buildLabel2idx [''cats'', ''dogs'']) 2)
     (map (imported demoEnv) mixedBatch)
   \<and> \<not> isl (extractLoop demoEnv (MobileNet 2) (buildLabel2idx [''cats'', ''dogs'']) 2
              (map (imported demoEnv) mixedBatch) ([], [], None))
   \<and> net mixedState = Some (MobileNet 2)
   \<and> trainFiles mixedState \<noteq> []
   \<and> stack demoEnv [[1, 1], [1, 1, 1], [1, 1]]
       = Inl ''All tensors passed to stack must have matching shapes''
   \<and> snd (trainRun demoEnv (MobileNet 2) (trainFiles mixedState))
       = Inl (TfError ''All tensors passed to stack must have matching shapes'')
   \<and> headModel (onTrainHead demoEnv mixedState) = None"
proof -
  note c2 = C2_dimension_is_recorded_not_checked
              [of demoEnv "MobileNet 2" "buildLabel2idx [''cats'', ''dogs'']" 2
                  "map (imported demoEnv) mixedBatch" mixedState
                  "[[1, 1], [1, 1, 1], [1, 1]]" "[[1, 0], [0, 1], [1, 0]]" 2
                  "''All tensors passed to stack must have matching shapes''"]
  have a: "\<not> isl (extractLoop demoEnv (MobileNet 2) (buildLabel2idx [''cats'', ''dogs'']) 2
              (map (imported demoEnv) mixedBatch) ([], [], None))"
    using c2 [THEN conjunct1] stepOk_mixed by blast
  have loop: "extractLoop demoEnv (MobileNet 2)
       (buildLabel2idx (buildLabelSet (trainFiles mixedState)))
       (length (buildLabelSet (trainFiles mixedState))) (trainFiles mixedState) ([], [], None)
     = Inr ([[1, 1], [1, 1, 1], [1, 1]], [[1, 0], [0, 1], [1, 0]], Some 2)"
    unfolding mixedState_fields buildLabelSet_mixed
    using extractLoop_mixed by (simp add: numeral_2_eq_2)
  have ne: "trainFiles mixedState \<noteq> []"
    unfolding mixedState_fields by (simp add: mixedBatch_def)
  have b: "snd (trainRun demoEnv (MobileNet 2) (trainFiles mixedState))
             = Inl (TfError ''All tensors passed to stack must have matching shapes'')
           \<and> headModel (onTrainHead demoEnv mixedState) = None"
    using c2 [THEN conjunct2, THEN conjunct2] mixedState_fields(1) ne loop stack_mixed
    by blast
  from stepOk_mixed a mixedState_fields(1) ne stack_mixed b show ?thesis by blast
qed




text \<open>
  C4, at a label set the code mishandles. The sorted label array is built for every set
  of labels (\<open>buildLabelSet_sorted_list_of_set\<close>, \<open>buildLabelSet_same_set\<close>,
  \<open>buildLabelSet_rebuild\<close>) and the object from label to index holds the position of
  every label but one (\<open>label_index_position\<close>): for the labels \<^verbatim>\<open>cats\<close> and
  \<^verbatim>\<open>__proto__\<close> the array is \<^verbatim>\<open>["__proto__", "cats"]\<close>, the assignment
  \<^verbatim>\<open>label2idx["__proto__"] = 0\<close> stores nothing, and reading the index of \<^verbatim>\<open>__proto__\<close>
  yields the inherited prototype object instead of \<open>0\<close>.
\<close>

theorem C4_proto_label_gets_no_index:
  "buildLabelSet [example ''cats'' 2, example ''__proto__'' 2] = [''__proto__'', ''cats'']
   \<and> buildLabel2idx [''__proto__'', ''cats''] ''__proto__'' = None
   \<and> js_get (buildLabel2idx [''__proto__'', ''cats'']) ''__proto__'' = Inherited
   \<and> js_get (buildLabel2idx [''__proto__'', ''cats'']) ''cats'' = Own 1"
  by (simp add: buildLabel2idx_proto buildLabelSet_def js_Set_def)

text \<open>
  C5, as the code has it. Clearing empties the training files, the label counts and the
  previews together, and it also discards the test image, the last prediction and the
  head model; only the base model stays.
\<close>

theorem C5_clear_discards_everything:
  "trainFiles (onClearAll st) = []
   \<and> labelCounts (onClearAll st) = Map.empty
   \<and> trainPreviews (onClearAll st) = []
   \<and> testFile (onClearAll st) = None
   \<and> testPreview (onClearAll st) = None
   \<and> pred (onClearAll st) = None
   \<and> headModel (onClearAll st) = None
   \<and> net (onClearAll st) = net st"
  by (simp add: onClearAll_def pushMsg_def)

theorem C5_counterexample:
  "headModel (trainedOn demoEnv catsAndDogs) = Some (demoHead [''cats'', ''dogs''])
   \<and> headModel (onClearAll (trainedOn demoEnv catsAndDogs)) = None"
  by (simp add: trainedOn_catsAndDogs_head onClearAll_def pushMsg_def)

text \<open>
  C6. For the head of any state the screen can reach, prediction fails with the label
  mapping error exactly when the forward pass returned a probability vector whose length
  differs from the length of the label array of the head.
\<close>

theorem C6_label_mapping_check:
  assumes "reachable e st" and "headModel st = Some h"
  shows "(predictRun e n h f = Inl LabelMappingInconsistent) =
           (\<exists>img feat probs.
              fileToImage e f = Inr img \<and> infer e n img = Inr feat
              \<and> forward e (model h) feat = Inr probs
              \<and> length probs \<noteq> length (idx2label h))"
proof -
  have "idx2label h \<noteq> []" using head_labels [OF assms] by simp
  then show ?thesis by (rule predictRun_inconsistent)
qed

theorem C6_witness:
  "reachable threeEnv (trainedOn threeEnv catsAndDogs)
   \<and> headModel (trainedOn threeEnv catsAndDogs) = Some (demoHead [''cats'', ''dogs''])
   \<and> predictRun threeEnv (MobileNet 2) (demoHead [''cats'', ''dogs'']) query
       = Inl LabelMappingInconsistent
   \<and> reachable demoEnv (trainedOn demoEnv catsAndDogs)
   \<and> headModel (trainedOn demoEnv catsAndDogs) = Some (demoHead [''cats'', ''dogs''])
   \<and> predictRun demoEnv (MobileNet 2) (demoHead [''cats'', ''dogs'']) query
       \<noteq> Inl LabelMappingInconsistent"
proof -
  have r3: "reachable threeEnv (trainedOn threeEnv catsAndDogs)"
    by (rule reachable_trainedOn)
  have h3: "headModel (trainedOn threeEnv catsAndDogs) = Some (demoHead [''cats'', ''dogs''])"
    by (simp add: trainedOn_catsAndDogs_head)
  have "\<exists>img feat probs.
          fileToImage threeEnv query = Inr img \<and> infer threeEnv (MobileNet 2) img = Inr feat
          \<and> forward threeEnv (model (demoHead [''cats'', ''dogs''])) feat = Inr probs
          \<and> length probs \<noteq> length (idx2label (demoHead [''cats'', ''dogs'']))"
    by (simp add: fileToImage_def)
  then have p3: "predictRun threeEnv (MobileNet 2) (demoHead [''cats'', ''dogs'']) query
                   = Inl LabelMappingInconsistent"
    using C6_label_mapping_check [OF r3 h3, of "MobileNet 2" query] by simp
  have rd: "reachable demoEnv (trainedOn demoEnv catsAndDogs)"
    by (rule reachable_trainedOn)
  have hd: "headModel (trainedOn demoEnv catsAndDogs) = Some (demoHead [''cats'', ''dogs''])"
    by (simp add: trainedOn_catsAndDogs_head)
  have "\<not> (\<exists>img feat probs.
          fileToImage demoEnv query = Inr img \<and> infer demoEnv (MobileNet 2) img = Inr feat
          \<and> forward demoEnv (model (demoHead [''cats'', ''dogs''])) feat = Inr probs
          \<and> length probs \<noteq> length (idx2label (demoHead [''cats'', ''dogs''])))"
    by (auto simp: fileToImage_def demoForward_def)
  then have pd: "predictRun demoEnv (MobileNet 2) (demoHead [''cats'', ''dogs'']) query
                   \<noteq> Inl LabelMappingInconsistent"
    using C6_label_mapping_check [OF rd hd, of "MobileNet 2" query] by simp
  from r3 h3 p3 rd hd pd show ?thesis by blast
qed

text \<open>
  C7, at a head the code mishandles. A successful prediction names the label at the first
  largest probability and fills the confidences from the label array of the head
  (\<open>predictRun_success\<close>, \<open>buildConfidences_at\<close>, \<open>buildConfidences_dom\<close>); after
  importing the folders \<^verbatim>\<open>__proto__\<close> and \<^verbatim>\<open>cats\<close>, training and predicting, the head
  has both labels, the top label is \<^verbatim>\<open>__proto__\<close>, and the confidences hold an entry for
  \<^verbatim>\<open>cats\<close> only.
\<close>

theorem C7_proto_label_gets_no_probability:
  "map_option idx2label (headModel (trainedOn demoEnv protoBatch)) = Some [''__proto__'', ''cats'']
   \<and> map_option (\<lambda>p. (top p, confidences p ''__proto__'', confidences p ''cats''))
        (pred (onPredictBtn demoEnv (trainedOn demoEnv protoBatch)))
       = Some (''__proto__'', None, Some (1 / 2))"
  by (simp add: trainedOn_protoBatch_head onPredictBtn_pred predictRun_proto
        buildConfidences_proto)

text \<open>
  C8, at a label the code mishandles. The count of a label is exact in every reachable
  state unless \<^verbatim>\<open>Object.prototype\<close> defines a property of that name
  (\<open>counts_exact\<close>); after importing one image from a folder named \<^verbatim>\<open>constructor\<close>,
  one training example carries that label and the value held for it is not the number
  \<open>1\<close> but the string that adding \<open>1\<close> to the inherited function produced.
\<close>

theorem C8_inherited_name_is_not_counted:
  "countOf ''constructor''
     (trainFiles (onAddFolder demoEnv (Some [pngAt ''data/constructor/a.png'' 2]) initial)) = 1
   \<and> labelCounts (onAddFolder demoEnv (Some [pngAt ''data/constructor/a.png'' 2]) initial)
       ''constructor'' = Some NotANumber"
  by (simp add: onAddFolder_trainFiles onAddFolder_labelCounts initial_def countOf_def
        imported_def js_put_def js_get_def plus_one_def objectPrototypeKeys_def)

text \<open>
  C9. For every imported file, the label assigned to it is the name of the parent
  directory of its relative path: when the path is written from segments that contain no
  slash, the label is the second-to-last of the non-empty segments, and it is the
  sentinel \<^verbatim>\<open>root\<close> when there are fewer than two of them. The example with this label
  is among the training files after the import.
\<close>

theorem C9_label_is_parent_directory:
  assumes "isWeb e" and "f \<in> set fs" and "isImage f"
    and "segs \<noteq> []" and "\<forall>s\<in>set segs. CHR ''/'' \<notin> set s"
    and "relPath f = joinWith CHR ''/'' segs"
  shows "\<lparr>tfile = f, label = parentOrRoot segs, uri = createObjectURL e f\<rparr>
           \<in> set (trainFiles (onAddFolder e (Some fs) st))"
proof -
  have "labelOf f = parentOrRoot segs"
    using assms(4-6) by (rule labelOf_parentOrRoot)
  then have "imported e f = \<lparr>tfile = f, label = parentOrRoot segs, uri = createObjectURL e f\<rparr>"
    by (simp add: imported_def)
  moreover have "imported e f \<in> set (trainFiles (onAddFolder e (Some fs) st))"
    using assms(1-3) by (simp add: onAddFolder_trainFiles)
  ultimately show ?thesis by simp
qed

theorem C9_witness:
  "\<lparr>tfile = pngAt ''data/cats/a.png'' 2, label = ''cats'', uri = ''blob:img.png''\<rparr>
     \<in> set (trainFiles (onAddFolder demoEnv (Some [pngAt ''a.png'' 2, pngAt ''data/cats/a.png'' 2])
                 initial))
   \<and> \<lparr>tfile = pngAt ''a.png'' 2, label = ''root'', uri = ''blob:img.png''\<rparr>
     \<in> set (trainFiles (onAddFolder demoEnv (Some [pngAt ''a.png'' 2, pngAt ''data/cats/a.png'' 2])
                 initial))"
proof -
  have "\<lparr>tfile = pngAt ''data/cats/a.png'' 2,
         label = parentOrRoot [''data'', ''cats'', ''a.png''],
         uri = createObjectURL demoEnv (pngAt ''data/cats/a.png'' 2)\<rparr>
     \<in> set (trainFiles (onAddFolder demoEnv (Some [pngAt ''a.png'' 2, pngAt ''data/cats/a.png'' 2])
                 initial))"
    by (rule C9_label_is_parent_directory)
       (simp_all add: relPath_def pngAt_def isImage_def startsWith_def)
  moreover have "\<lparr>tfile = pngAt ''a.png'' 2,
         label = parentOrRoot [''a.png''],
         uri = createObjectURL demoEnv (pngAt ''a.png'' 2)\<rparr>
     \<in> set (trainFiles (onAddFolder demoEnv (Some [pngAt ''a.png'' 2, pngAt ''data/cats/a.png'' 2])
                 initial))"
    by (rule C9_label_is_parent_directory)
       (simp_all add: relPath_def pngAt_def isImage_def startsWith_def)
  ultimately show ?thesis
    by (simp add: parentOrRoot_def pngAt_def)
qed

text \<open>
  C10. An import adds image-typed files only: importing a batch is the same as importing
  its image-typed entries, and a batch with no image-typed entry leaves the training
  files, the label counts and the previews as they were.
\<close>

theorem C10_only_images_are_imported:
  "onAddFolder e (Some fs) st = onAddFolder e (Some (filter isImage fs)) st
   \<and> (filter isImage fs = [] \<longrightarrow>
        trainFiles (onAddFolder e (Some fs) st) = trainFiles st
        \<and> labelCounts (onAddFolder e (Some fs) st) = labelCounts st
        \<and> trainPreviews (onAddFolder e (Some fs) st) = trainPreviews st)"
proof (intro conjI impI)
  have "scan e fs ([], [], labelCounts st, 0)
          = scan e (filter isImage fs) ([], [], labelCounts st, 0)"
    by (rule scan_filter)
  then show "onAddFolder e (Some fs) st = onAddFolder e (Some (filter isImage fs)) st"
    by (simp add: onAddFolder_def)
next
  assume "filter isImage fs = []"
  then show "trainFiles (onAddFolder e (Some fs) st) = trainFiles st"
    by (simp add: onAddFolder_trainFiles)
next
  assume "filter isImage fs = []"
  then show "labelCounts (onAddFolder e (Some fs) st) = labelCounts st"
    by (simp add: onAddFolder_labelCounts)
next
  assume "filter isImage fs = []"
  then show "trainPreviews (onAddFolder e (Some fs) st) = trainPreviews st"
    by (simp add: onAddFolder_trainPreviews)
qed

theorem C10_witness:
  "filter isImage
     [\<lparr>ftype = ''text/plain'', webkitRelativePath = ''data/cats/notes.txt'',
       fname = ''notes.txt'', blob = 7\<rparr>] = []
   \<and> trainFiles
       (onAddFolder demoEnv
          (Some [\<lparr>ftype = ''text/plain'', webkitRelativePath = ''data/cats/notes.txt'',
                  fname = ''notes.txt'', blob = 7\<rparr>])
          (onAddFolder demoEnv (Some catsAndDogs) initial))
     = trainFiles (onAddFolder demoEnv (Some catsAndDogs) initial)
   \<and> labelCounts
       (onAddFolder demoEnv
          (Some [\<lparr>ftype = ''text/plain'', webkitRelativePath = ''data/cats/notes.txt'',
                  fname = ''notes.txt'', blob = 7\<rparr>])
          (onAddFolder demoEnv (Some catsAndDogs) initial))
     = labelCounts (onAddFolder demoEnv (Some catsAndDogs) initial)
   \<and> trainPreviews
       (onAddFolder demoEnv
          (Some [\<lparr>ftype = ''text/plain'', webkitRelativePath = ''data/cats/notes.txt'',
                  fname = ''notes.txt'', blob = 7\<rparr>])
          (onAddFolder demoEnv (Some catsAndDogs) initial))
     = trainPreviews (onAddFolder demoEnv (Some catsAndDogs) initial)"
proof -
  have none: "filter isImage
     [\<lparr>ftype = ''text/plain'', webkitRelativePath = ''data/cats/notes.txt'',
       fname = ''notes.txt'', blob = 7\<rparr>] = []"
    by (simp add: isImage_def startsWith_def)
  show ?thesis
    using none
      C10_only_images_are_imported
        [of demoEnv
          "[\<lparr>ftype = ''text/plain'', webkitRelativePath = ''data/cats/notes.txt'',
             fname = ''notes.txt'', blob = 7\<rparr>]"
          "onAddFolder demoEnv (Some catsAndDogs) initial"]
    by blast
qed

end
